theory Spec2Isabelle
  imports Complex_Main
begin

section \<open>JavaScript values\<close>

text \<open>
  The dashboard receives JSON from the backend and never checks it against the
  TypeScript interfaces, so the values it handles are modelled as untyped JavaScript
  values. A number is a double: only its class matters to the code below (\<open>NaN\<close>,
  an infinity, or a finite value, where \<open>Finite 0\<close> stands for both zeros), so the
  finite ones carry a real and no rounding is modelled. A string is a list of code
  units below 256. An object lists its own properties; a lookup takes the first
  binding of a name.
\<close>

datatype jsnum = NaN | PosInfinity | NegInfinity | Finite real

datatype jsval =
    Undefined
  | Null
  | Bool bool
  | Num jsnum
  | Str string
  | Arr "jsval list"
  | Obj "(string \<times> jsval) list"

text \<open>What can be thrown: every value thrown in the modelled code is an \<open>Error\<close>
  instance. Its message is kept as the expression that builds it.\<close>

datatype message =
    Text string
  | HttpStatus nat  \<comment> \<open>\<^verbatim>\<open>`HTTP error! status: ${response.status}`\<close>\<close>
  | ToString jsval  \<comment> \<open>the string conversion \<^verbatim>\<open>new Error(v)\<close> applies to \<open>v\<close>\<close>

datatype thrown = Error message

fun truthy :: "jsval \<Rightarrow> bool" where
  "truthy Undefined = False"
| "truthy Null = False"
| "truthy (Bool b) = b"
| "truthy (Num n) = (n \<noteq> NaN \<and> n \<noteq> Finite 0)"
| "truthy (Str s) = (s \<noteq> [])"
| "truthy (Arr xs) = True"
| "truthy (Obj ps) = True"

fun typeof :: "jsval \<Rightarrow> string" where
  "typeof Undefined = ''undefined''"
| "typeof Null = ''object''"
| "typeof (Bool b) = ''boolean''"
| "typeof (Num n) = ''number''"
| "typeof (Str s) = ''string''"
| "typeof (Arr xs) = ''object''"
| "typeof (Obj ps) = ''object''"

text \<open>\<^verbatim>\<open>v.k\<close>: reading a property of \<open>undefined\<close> or \<open>null\<close> throws a
  \<open>TypeError\<close>; a missing property reads as \<open>undefined\<close>.\<close>

fun get_prop :: "jsval \<Rightarrow> string \<Rightarrow> thrown + jsval" where
  "get_prop Undefined k = Inl (Error (Text ''Cannot read properties of undefined''))"
| "get_prop Null k = Inl (Error (Text ''Cannot read properties of null''))"
| "get_prop (Obj ps) k = Inr (case map_of ps k of None \<Rightarrow> Undefined | Some v \<Rightarrow> v)"
| "get_prop (Str s) k =
     Inr (if k = ''length'' then Num (Finite (real (length s))) else Undefined)"
| "get_prop (Arr xs) k =
     Inr (if k = ''length'' then Num (Finite (real (length xs))) else Undefined)"
| "get_prop (Bool b) k = Inr Undefined"
| "get_prop (Num n) k = Inr Undefined"

text \<open>\<open>isNaN\<close> on a value whose \<open>typeof\<close> is \<open>number\<close>.\<close>

fun isNaN :: "jsnum \<Rightarrow> bool" where
  "isNaN NaN = True"
| "isNaN PosInfinity = False"
| "isNaN NegInfinity = False"
| "isNaN (Finite r) = False"

section \<open>The network\<close>

text \<open>
  A \<open>fetch\<close> either rejects (the endpoint is unreachable) or resolves to a response
  with a status and a body; \<open>response.json()\<close> rejects on a body that is not JSON
  (\<open>None\<close>). The environment of a call is the configured base URL and what the
  network answers to each URL.
\<close>

datatype fetch_outcome =
    Rejected string
  | Response nat "jsval option"

record env =
  API_BASE_URL :: string
  fetch :: "string \<Rightarrow> fetch_outcome"

definition response_ok :: "nat \<Rightarrow> bool" where
  "response_ok status = (200 \<le> status \<and> status \<le> 299)"

section \<open>Strings\<close>

fun is_prefix :: "string \<Rightarrow> string \<Rightarrow> bool" where
  "is_prefix [] s = True"
| "is_prefix (p # ps) [] = False"
| "is_prefix (p # ps) (c # cs) = (p = c \<and> is_prefix ps cs)"


text \<open>\<^verbatim>\<open>s.replace(p, r)\<close> with a string pattern: the first occurrence only.\<close>

fun replace_first :: "string \<Rightarrow> string \<Rightarrow> string \<Rightarrow> string" where
  "replace_first [] p r = (if p = [] then r else [])"
| "replace_first (c # cs) p r =
     (if is_prefix p (c # cs) then r @ drop (length p) (c # cs)
      else c # replace_first cs p r)"

text \<open>\<^verbatim>\<open>s.split(d)\<close> with a one-character separator.\<close>

fun split_on :: "char \<Rightarrow> string \<Rightarrow> string list" where
  "split_on d [] = [[]]"
| "split_on d (c # cs) =
     (if c = d then [] # split_on d cs
      else (case split_on d cs of
              [] \<Rightarrow> [[c]]
            | p # ps \<Rightarrow> (c # p) # ps))"

subsection \<open>URLSearchParams\<close>

text \<open>
  \<open>URLSearchParams.toString\<close> is the \<open>application/x-www-form-urlencoded\<close>
  serializer: each name and value is encoded to UTF-8 and every byte is written as
  itself when it is an ASCII letter, a digit or one of \<^verbatim>\<open>* - . _\<close>, as \<open>+\<close> when
  it is a space, and as \<open>%XX\<close> otherwise; the pairs are joined with \<open>&\<close>.
\<close>

definition utf8_bytes :: "char \<Rightarrow> nat list" where
  "utf8_bytes c =
     (let n = of_char c :: nat
      in if n < 128 then [n] else [192 + n div 64, 128 + n mod 64])"

definition hex_digit :: "nat \<Rightarrow> char" where
  "hex_digit n = ''0123456789ABCDEF'' ! (n mod 16)"

definition urlencoded_safe :: "string" where
  "urlencoded_safe =
     ''*-._0123456789ABCDEFGHIJKLMNOPQRSTUVWXYZabcdefghijklmnopqrstuvwxyz''"

definition encode_byte :: "nat \<Rightarrow> string" where
  "encode_byte b =
     (if b = 32 then ''+''
      else if char_of b \<in> set urlencoded_safe then [char_of b]
      else [CHR ''%'', hex_digit (b div 16), hex_digit b])"

definition urlencode :: "string \<Rightarrow> string" where
  "urlencode s = concat (map encode_byte (concat (map utf8_bytes s)))"

fun URLSearchParams_toString :: "(string \<times> string) list \<Rightarrow> string" where
  "URLSearchParams_toString [] = []"
| "URLSearchParams_toString [(k, v)] = urlencode k @ ''='' @ urlencode v"
| "URLSearchParams_toString ((k, v) # p # ps) =
     urlencode k @ ''='' @ urlencode v @ ''&'' @ URLSearchParams_toString (p # ps)"

section \<open>The API service\<close>

text \<open>\<open>ApiService.fetchWithErrorHandling\<close>: the catch block logs and rethrows.\<close>

definition fetchWithErrorHandling :: "env \<Rightarrow> string \<Rightarrow> thrown + jsval" where
  "fetchWithErrorHandling e url =
     (case fetch e url of
        Rejected msg \<Rightarrow> Inl (Error (Text msg))
      | Response status body \<Rightarrow>
          if \<not> response_ok status then Inl (Error (HttpStatus status))
          else (case body of
                  None \<Rightarrow> Inl (Error (Text ''Unexpected token in JSON''))
                | Some data \<Rightarrow>
                    (case get_prop data ''success'' of
                       Inl err \<Rightarrow> Inl err
                     | Inr success \<Rightarrow>
                         if \<not> truthy success then
                           (case get_prop data ''error'' of
                              Inl err \<Rightarrow> Inl err
                            | Inr msg \<Rightarrow>
                                Inl (Error (if truthy msg then ToString msg
                                            else Text ''API request failed'')))
                         else get_prop data ''data'')))"

definition getAllReports :: "env \<Rightarrow> thrown + jsval" where
  "getAllReports e = fetchWithErrorHandling e (API_BASE_URL e @ ''/reports'')"

definition getReportStats :: "env \<Rightarrow> thrown + jsval" where
  "getReportStats e = fetchWithErrorHandling e (API_BASE_URL e @ ''/reports/stats'')"

definition getComprehensiveStats :: "env \<Rightarrow> thrown + jsval" where
  "getComprehensiveStats e = fetchWithErrorHandling e (API_BASE_URL e @ ''/reports/stats'')"

definition getFilterOptions :: "env \<Rightarrow> thrown + jsval" where
  "getFilterOptions e = fetchWithErrorHandling e (API_BASE_URL e @ ''/filter-options'')"

text \<open>\<open>ApiService.checkConnection\<close>: the probe of
  \<^verbatim>\<open>${API_BASE_URL.replace("/api", "")}/health\<close>.\<close>

definition health_url :: "env \<Rightarrow> string" where
  "health_url e = replace_first (API_BASE_URL e) ''/api'' [] @ ''/health''"

definition checkConnection :: "env \<Rightarrow> thrown + bool" where
  "checkConnection e =
     (case fetch e (health_url e) of
        Rejected msg \<Rightarrow> Inr False
      | Response status body \<Rightarrow> Inr (response_ok status))"

subsection \<open>Locations for the map\<close>

text \<open>The optional argument of \<open>getReportsByLocation\<close>: each dimension may be
  absent.\<close>

record location_filters =
  category :: "string option"
  priority :: "string option"
  department :: "string option"
  status :: "string option"

text \<open>\<^verbatim>\<open>if (filters?.category) params.append("category", filters.category)\<close>: a
  dimension is appended when it is present and not the empty string.\<close>

definition append_if :: "string \<Rightarrow> string option \<Rightarrow> (string \<times> string) list" where
  "append_if name v =
     (case v of None \<Rightarrow> [] | Some x \<Rightarrow> if x \<noteq> [] then [(name, x)] else [])"

definition location_params :: "location_filters option \<Rightarrow> (string \<times> string) list" where
  "location_params filters =
     (case filters of
        None \<Rightarrow> []
      | Some f \<Rightarrow>
          append_if ''category'' (category f) @ append_if ''priority'' (priority f) @
          append_if ''department'' (department f) @ append_if ''status'' (status f))"

definition queryString :: "location_filters option \<Rightarrow> string" where
  "queryString filters =
     (let q = URLSearchParams_toString (location_params filters)
      in if q \<noteq> [] then ''?'' @ q else [])"

definition location_url :: "env \<Rightarrow> location_filters option \<Rightarrow> string" where
  "location_url e filters = API_BASE_URL e @ ''/reports/by-location'' @ queryString filters"

text \<open>\<open>ApiService.getReportsByLocation\<close>: the whole body is inside the \<open>try\<close>.\<close>

definition getReportsByLocation :: "env \<Rightarrow> location_filters option \<Rightarrow> thrown + jsval list" where
  "getReportsByLocation e filters =
     (case fetchWithErrorHandling e (location_url e filters) of
        Inl err \<Rightarrow> Inr []
      | Inr data \<Rightarrow> (case data of Arr xs \<Rightarrow> Inr xs | _ \<Rightarrow> Inr []))"

section \<open>The heatmap view\<close>

text \<open>
  The state of \<open>JharkhandHeatmap\<close>: one field for each \<open>useState\<close>. The filter
  options and the selected complaint are \<open>null\<close> at first.
\<close>

record heatmap_state =
  locations :: "jsval list"
  loading :: bool
  isConnected :: bool
  filterOptions :: jsval
  selectedCategory :: string
  selectedPriority :: string
  selectedDepartment :: string
  selectedStatus :: string
  selectedComplaint :: jsval

definition heatmap_initial :: heatmap_state where
  "heatmap_initial =
     \<lparr>locations = [], loading = True, isConnected = False, filterOptions = Null,
      selectedCategory = [], selectedPriority = [], selectedDepartment = [],
      selectedStatus = [], selectedComplaint = Null\<rparr>"

text \<open>
  The callback of \<open>reportLocations.filter\<close>. The conjunction is evaluated from the
  left and stops at the first falsy operand, so \<open>isNaN\<close> only sees numbers; reading
  \<open>loc.lat\<close> throws when \<open>loc\<close> itself is \<open>null\<close> or \<open>undefined\<close>.
\<close>

definition not_NaN :: "jsval \<Rightarrow> bool" where
  "not_NaN v = (case v of Num n \<Rightarrow> \<not> isNaN n | _ \<Rightarrow> False)"

definition valid_location :: "jsval \<Rightarrow> thrown + bool" where
  "valid_location loc =
     (case get_prop loc ''lat'' of
        Inl err \<Rightarrow> Inl err
      | Inr lat \<Rightarrow>
          if \<not> truthy lat then Inr False
          else (case get_prop loc ''lng'' of
                  Inl err \<Rightarrow> Inl err
                | Inr lng \<Rightarrow>
                    Inr (truthy lng \<and> typeof lat = ''number'' \<and> typeof lng = ''number'' \<and>
                         not_NaN lat \<and> not_NaN lng)))"

fun filter_valid :: "jsval list \<Rightarrow> thrown + jsval list" where
  "filter_valid [] = Inr []"
| "filter_valid (loc # rest) =
     (case valid_location loc of
        Inl err \<Rightarrow> Inl err
      | Inr keep \<Rightarrow>
          (case filter_valid rest of
             Inl err \<Rightarrow> Inl err
           | Inr kept \<Rightarrow> Inr (if keep then loc # kept else kept)))"

text \<open>The filter object \<open>loadReportLocations\<close> builds, and what it passes on:
  \<^verbatim>\<open>Object.keys(filters).length > 0 ? filters : undefined\<close>.\<close>

definition set_if :: "string \<Rightarrow> string option" where
  "set_if selected = (if selected \<noteq> [] then Some selected else None)"

definition build_filters :: "bool \<Rightarrow> heatmap_state \<Rightarrow> location_filters" where
  "build_filters applyFilters c =
     (if applyFilters then
        \<lparr>category = set_if (selectedCategory c), priority = set_if (selectedPriority c),
         department = set_if (selectedDepartment c), status = set_if (selectedStatus c)\<rparr>
      else \<lparr>category = None, priority = None, department = None, status = None\<rparr>)"

definition filters_arg :: "location_filters \<Rightarrow> location_filters option" where
  "filters_arg f =
     (if category f = None \<and> priority f = None \<and> department f = None \<and> status f = None
      then None else Some f)"

text \<open>
  \<open>loadReportLocations\<close>. The function is created anew by every render and reads the
  selections and the filter options of the render that created it: \<open>c\<close> is the state
  as that render saw it. The setters act on the current state \<open>s\<close>. The result is the
  state once the call has settled and the URLs it requested, in order.
\<close>

definition load_filter_options :: "heatmap_state \<Rightarrow> env \<Rightarrow> heatmap_state \<Rightarrow> heatmap_state \<times> string list" where
  "load_filter_options c e s =
     (if \<not> truthy (filterOptions c) then
        (case getFilterOptions e of
           Inl err \<Rightarrow> (s, [API_BASE_URL e @ ''/filter-options''])
         | Inr options \<Rightarrow> (s\<lparr>filterOptions := options\<rparr>, [API_BASE_URL e @ ''/filter-options'']))
      else (s, []))"

definition set_valid_locations :: "jsval list \<Rightarrow> heatmap_state \<Rightarrow> heatmap_state" where
  "set_valid_locations reportLocations s =
     (if reportLocations \<noteq> [] then
        (case filter_valid reportLocations of
           Inl err \<Rightarrow> s\<lparr>locations := []\<rparr>
         | Inr validLocations \<Rightarrow> s\<lparr>locations := validLocations\<rparr>)
      else s\<lparr>locations := []\<rparr>)"

definition loadReportLocations :: "bool \<Rightarrow> heatmap_state \<Rightarrow> env \<Rightarrow> heatmap_state \<Rightarrow> heatmap_state \<times> string list" where
  "loadReportLocations applyFilters c e s =
     (case checkConnection e of
        Inl err \<Rightarrow> (s\<lparr>locations := [], loading := False\<rparr>, [health_url e])
      | Inr conn \<Rightarrow>
          if conn then
            (let (s1, reqs) = load_filter_options c e (s\<lparr>loading := True, isConnected := True\<rparr>);
                 filters = filters_arg (build_filters applyFilters c)
             in (case getReportsByLocation e filters of
                   Inl err \<Rightarrow>
                     (s1\<lparr>locations := [], loading := False\<rparr>,
                      health_url e # reqs @ [location_url e filters])
                 | Inr reportLocations \<Rightarrow>
                     ((set_valid_locations reportLocations s1)\<lparr>loading := False\<rparr>,
                      health_url e # reqs @ [location_url e filters])))
          else (s\<lparr>loading := False, isConnected := False\<rparr>, [health_url e]))"

text \<open>
  What happens to the view. Mounting runs both effects: the first loads without
  filters and starts the timer, the second loads only when \<open>isConnected\<close> already
  holds. The timer's callback was created by the first render, so the function it calls
  is the one of that render. Choosing a value in a select sets the field and, when the
  four selections differ from the previous render's, the second effect runs again with
  the function of the new render. Each event settles before the next one.
\<close>

datatype event =
    Mount
  | SetCategory string
  | SetPriority string
  | SetDepartment string
  | SetStatus string
  | ClearFilters
  | Refresh
  | Tick

definition selections :: "heatmap_state \<Rightarrow> string \<times> string \<times> string \<times> string" where
  "selections s = (selectedCategory s, selectedPriority s, selectedDepartment s, selectedStatus s)"

definition filters_effect :: "heatmap_state \<Rightarrow> env \<Rightarrow> heatmap_state \<Rightarrow> heatmap_state \<times> string list" where
  "filters_effect old e s =
     (if selections s \<noteq> selections old \<and> isConnected s
      then loadReportLocations True s e s else (s, []))"

fun heatmap_step :: "heatmap_state \<Rightarrow> env \<Rightarrow> event \<Rightarrow> heatmap_state \<Rightarrow> heatmap_state \<times> string list" where
  "heatmap_step first e Mount s =
     (let (s1, reqs1) = loadReportLocations False s e s;
          (s2, reqs2) = (if isConnected s then loadReportLocations True s e s1 else (s1, []))
      in (s2, reqs1 @ reqs2))"
| "heatmap_step first e (SetCategory v) s = filters_effect s e (s\<lparr>selectedCategory := v\<rparr>)"
| "heatmap_step first e (SetPriority v) s = filters_effect s e (s\<lparr>selectedPriority := v\<rparr>)"
| "heatmap_step first e (SetDepartment v) s = filters_effect s e (s\<lparr>selectedDepartment := v\<rparr>)"
| "heatmap_step first e (SetStatus v) s = filters_effect s e (s\<lparr>selectedStatus := v\<rparr>)"
| "heatmap_step first e ClearFilters s =
     filters_effect s e
       (s\<lparr>selectedCategory := [], selectedPriority := [], selectedDepartment := [],
          selectedStatus := []\<rparr>)"
| "heatmap_step first e Refresh s = loadReportLocations True s e s"
| "heatmap_step first e Tick s = loadReportLocations True first e s"

text \<open>A session: the view mounts in a state and then meets events, each with the
  network of its moment. The result is the final state and every URL requested.\<close>

fun heatmap_run :: "heatmap_state \<Rightarrow> (env \<times> event) list \<Rightarrow> heatmap_state \<Rightarrow> heatmap_state \<times> string list" where
  "heatmap_run first [] s = (s, [])"
| "heatmap_run first ((e, ev) # rest) s =
     (let (s1, reqs1) = heatmap_step first e ev s;
          (s2, reqs2) = heatmap_run first rest s1
      in (s2, reqs1 @ reqs2))"

section \<open>The report hooks and the table view\<close>

text \<open>\<open>useReports\<close>: the state, and \<open>fetchReports\<close> once the request has
  settled.\<close>

record reports_state =
  reports :: jsval
  reports_loading :: bool
  reports_error :: "message option"

definition useReports_initial :: reports_state where
  "useReports_initial = \<lparr>reports = Arr [], reports_loading = True, reports_error = None\<rparr>"

definition fetchReports :: "env \<Rightarrow> reports_state \<Rightarrow> reports_state" where
  "fetchReports e s =
     (case getAllReports e of
        Inr data \<Rightarrow> s\<lparr>reports := data, reports_error := None, reports_loading := False\<rparr>
      | Inl (Error msg) \<Rightarrow> s\<lparr>reports_error := Some msg, reports_loading := False\<rparr>)"

text \<open>\<open>useReportStats\<close>\<close>

record report_stats_state =
  report_stats :: jsval
  report_stats_loading :: bool
  report_stats_error :: "message option"

definition useReportStats_initial :: report_stats_state where
  "useReportStats_initial =
     \<lparr>report_stats = Null, report_stats_loading = True, report_stats_error = None\<rparr>"

definition fetchReportStats :: "env \<Rightarrow> report_stats_state \<Rightarrow> report_stats_state" where
  "fetchReportStats e s =
     (case getReportStats e of
        Inr data \<Rightarrow>
          s\<lparr>report_stats := data, report_stats_error := None, report_stats_loading := False\<rparr>
      | Inl (Error msg) \<Rightarrow> s\<lparr>report_stats_error := Some msg, report_stats_loading := False\<rparr>)"

text \<open>\<open>ComplaintsTable\<close>: its own \<open>fetchReports\<close>, with a fixed error text.\<close>

record table_state =
  table_reports :: jsval
  table_loading :: bool
  table_error :: string

definition table_initial :: table_state where
  "table_initial = \<lparr>table_reports = Arr [], table_loading = True, table_error = []\<rparr>"

definition table_fetchReports :: "env \<Rightarrow> table_state \<Rightarrow> table_state" where
  "table_fetchReports e s =
     (case getAllReports e of
        Inr data \<Rightarrow> s\<lparr>table_reports := data, table_error := [], table_loading := False\<rparr>
      | Inl err \<Rightarrow>
          s\<lparr>table_error := ''Failed to fetch complaints. Please try again.'',
            table_loading := False\<rparr>)"

section \<open>The statistics view\<close>

record statistics_state =
  stats :: jsval
  stats_loading :: bool
  stats_error :: "string option"

definition statistics_initial :: statistics_state where
  "statistics_initial = \<lparr>stats = Null, stats_loading = True, stats_error = None\<rparr>"

definition stat_card :: "jsval \<Rightarrow> string \<Rightarrow> string \<Rightarrow> jsval" where
  "stat_card v change change_type =
     Obj [(''value'', v), (''change'', Str change), (''change_type'', Str change_type)]"

definition month :: "string \<Rightarrow> jsval" where
  "month m = Obj [(''month'', Str m), (''complaints'', Num (Finite 0))]"

text \<open>The object literal of the \<open>catch\<close> block.\<close>

definition fallback_stats :: jsval where
  "fallback_stats =
     Obj [(''cards'',
            Obj [(''total_complaints'', stat_card (Num (Finite 0)) ''+0%'' ''increase''),
                 (''resolved_this_month'', stat_card (Num (Finite 0)) ''+0%'' ''increase''),
                 (''pending_review'', stat_card (Num (Finite 0)) ''-0%'' ''decrease''),
                 (''avg_resolution_time'', stat_card (Str ''0.0 days'') ''-0%'' ''decrease'')]),
          (''monthly_data'',
            Arr [month ''Jan'', month ''Feb'', month ''Mar'', month ''Apr'', month ''May'',
                 month ''Jun'']),
          (''category_data'',
            Arr [Obj [(''name'', Str ''No Data''), (''value'', Num (Finite 100)),
                      (''color'', Str ''#3B82F6'')]]),
          (''by_status'', Obj []),
          (''by_priority'', Obj []),
          (''by_department'', Obj []),
          (''total_reports'', Num (Finite 0))]"

definition fetchStats :: "env \<Rightarrow> statistics_state \<Rightarrow> statistics_state" where
  "fetchStats e s =
     (case getComprehensiveStats e of
        Inr data \<Rightarrow> s\<lparr>stats := data, stats_error := None, stats_loading := False\<rparr>
      | Inl err \<Rightarrow>
          s\<lparr>stats_error := Some ''Failed to load statistics'', stats := fallback_stats,
            stats_loading := False\<rparr>)"

text \<open>
  What the component returns: the skeleton while loading, the error panel (the text
  \<open>Error loading statistics:\<close> with the error and a retry button) when
  \<^verbatim>\<open>error || !stats\<close>, and otherwise the four cards and the two charts drawn from
  \<open>stats\<close>.
\<close>

datatype statistics_view =
    Skeleton
  | ErrorPanel "string option"
  | CardsAndCharts jsval

definition StatisticsSection :: "statistics_state \<Rightarrow> statistics_view" where
  "StatisticsSection s =
     (if stats_loading s then Skeleton
      else if (case stats_error s of None \<Rightarrow> False | Some msg \<Rightarrow> msg \<noteq> []) \<or> \<not> truthy (stats s)
      then ErrorPanel (stats_error s)
      else CardsAndCharts (stats s))"

section \<open>The chat view\<close>

subsection \<open>Trimming\<close>

text \<open>White space and line terminators among the code units below 256: tab, line
  feed, vertical tab, form feed, carriage return, space and no-break space.\<close>

definition js_whitespace :: "char \<Rightarrow> bool" where
  "js_whitespace c = (of_char c \<in> {9, 10, 11, 12, 13, 32, 160 :: nat})"

definition ltrim :: "string \<Rightarrow> string" where
  "ltrim s = dropWhile js_whitespace s"

definition rtrim :: "string \<Rightarrow> string" where
  "rtrim s = rev (dropWhile js_whitespace (rev s))"

definition trim :: "string \<Rightarrow> string" where
  "trim s = rtrim (ltrim s)"

subsection \<open>Sending a message\<close>

datatype sender = User | Bot

record chat_message =
  msg_id :: nat
  msg_text :: jsval
  msg_sender :: sender
  msg_timestamp :: nat

record chat_state =
  messages :: "chat_message list"
  inputMessage :: string
  isLoading :: bool

text \<open>The request \<open>sendMessage\<close> posts to \<^verbatim>\<open>/api/chatbot/message\<close>: the message and
  the transcript of the render that created the function.\<close>

record chat_request =
  message :: string
  chat_history :: "(jsval \<times> sender) list"

definition greeting :: string where
  "greeting = ''Hello! I'' @ [CHR 0x27] @ ''m your complaint data assistant. I can help you analyze complaint patterns, statistics, and answer questions about the complaint database. What would you like to know?''"

definition chat_initial :: "nat \<Rightarrow> chat_state" where
  "chat_initial now =
     \<lparr>messages = [\<lparr>msg_id = 1, msg_text = Str greeting, msg_sender = Bot, msg_timestamp = now\<rparr>],
      inputMessage = [], isLoading = False\<rparr>"

text \<open>The reply of the chatbot endpoint: \<open>data.response\<close> of a 2xx JSON body, or
  what the \<open>try\<close> block throws.\<close>

definition chatbot_reply :: "fetch_outcome \<Rightarrow> thrown + jsval" where
  "chatbot_reply outcome =
     (case outcome of
        Rejected msg \<Rightarrow> Inl (Error (Text msg))
      | Response code body \<Rightarrow>
          if \<not> response_ok code then Inl (Error (Text ''Failed to get response from chatbot''))
          else (case body of
                  None \<Rightarrow> Inl (Error (Text ''Unexpected token in JSON''))
                | Some data \<Rightarrow> get_prop data ''response''))"

text \<open>
  \<open>sendMessage\<close> in two steps, since the view is live while the request is
  outstanding. The first step runs up to the \<open>await\<close>: past the guard it appends the
  user's message, clears the input, sets \<open>isLoading\<close> and sends the request. The second
  runs when the request has settled: it appends the reply, or the apology when the
  \<open>try\<close> block threw, and clears \<open>isLoading\<close>. The \<open>id\<close> of a message is the clock's
  decimal string, kept as the number; the fields \<open>id\<close>, \<open>text\<close>, \<open>sender\<close> and
  \<open>timestamp\<close> carry the prefix \<open>msg\<close>.
\<close>

definition sendMessage_start :: "nat \<Rightarrow> chat_state \<Rightarrow> chat_state \<times> chat_request option" where
  "sendMessage_start now s =
     (if trim (inputMessage s) = [] \<or> isLoading s then (s, None)
      else
        (let userMessage =
               \<lparr>msg_id = now, msg_text = Str (inputMessage s), msg_sender = User,
                msg_timestamp = now\<rparr>;
             request =
               \<lparr>message = inputMessage s,
                chat_history = map (\<lambda>msg. (msg_text msg, msg_sender msg)) (messages s)\<rparr>
         in (s\<lparr>messages := messages s @ [userMessage], inputMessage := [], isLoading := True\<rparr>,
             Some request)))"

definition sendMessage_settle :: "nat \<Rightarrow> fetch_outcome \<Rightarrow> chat_state \<Rightarrow> chat_state" where
  "sendMessage_settle later outcome s =
     (let answer =
            (case chatbot_reply outcome of
               Inr response \<Rightarrow> response
             | Inl err \<Rightarrow> Str ''Sorry, I encountered an error. Please try again.'');
          botMessage =
            \<lparr>msg_id = later + 1, msg_text = answer, msg_sender = Bot, msg_timestamp = later\<rparr>
      in s\<lparr>messages := messages s @ [botMessage], isLoading := False\<rparr>)"

text \<open>The whole call when nothing else happens in between: the state once it has
  settled and the requests sent.\<close>

definition sendMessage :: "nat \<Rightarrow> nat \<Rightarrow> fetch_outcome \<Rightarrow> chat_state \<Rightarrow> chat_state \<times> chat_request list" where
  "sendMessage now later outcome s =
     (case sendMessage_start now s of
        (s1, None) \<Rightarrow> (s1, [])
      | (s1, Some request) \<Rightarrow> (sendMessage_settle later outcome s1, [request]))"

subsection \<open>Formatting a reply\<close>

text \<open>The regular expression \<^verbatim>\<open>/\*\*Complaint \d+:\*\*/\<close> at the start of a string:
  what follows the match.\<close>

definition is_digit :: "char \<Rightarrow> bool" where
  "is_digit c = (c \<in> set ''0123456789'')"

definition match_heading :: "string \<Rightarrow> string option" where
  "match_heading s =
     (if is_prefix ''**Complaint '' s then
        (let r = drop 12 s; ds = takeWhile is_digit r; r' = dropWhile is_digit r
         in if ds \<noteq> [] \<and> is_prefix '':**'' r' then Some (drop 3 r') else None)
      else None)"

text \<open>\<^verbatim>\<open>text.split(/\*\*Complaint \d+:\*\*/)\<close>: the pieces between the matches, found from
  left to right. A match is never empty, so the rest is shorter.\<close>

lemma is_prefix_length: "is_prefix p s \<Longrightarrow> length p \<le> length s"
  by (induction p s rule: is_prefix.induct) auto

lemma match_heading_shorter:
  assumes "match_heading s = Some r"
  shows "length r < length s"
proof -
  let ?r' = "dropWhile is_digit (drop 12 s)"
  from assms have p: "is_prefix '':**'' ?r'" and r: "r = drop 3 ?r'"
    by (auto simp: match_heading_def Let_def split: if_splits)
  from p have "3 \<le> length ?r'"
    using is_prefix_length by fastforce
  moreover have "length ?r' \<le> length s"
    using length_dropWhile_le [of is_digit "drop 12 s"] by simp
  ultimately show ?thesis
    using r by simp
qed

function split_headings :: "string \<Rightarrow> string list" where
  "split_headings [] = [[]]"
| "split_headings (c # cs) =
     (case match_heading (c # cs) of
        Some rest \<Rightarrow> [] # split_headings rest
      | None \<Rightarrow> (case split_headings cs of [] \<Rightarrow> [[c]] | p # ps \<Rightarrow> (c # p) # ps))"
  by pat_completeness auto
termination
  by (relation "measure length") (auto dest: match_heading_shorter)










text \<open>A card shows a field when it is set and not empty; these are the parts of a
  card, in the order of the markup.\<close>

definition shown :: "string option \<Rightarrow> bool" where
  "shown v = (case v of None \<Rightarrow> False | Some x \<Rightarrow> x \<noteq> [])"




section \<open>Example networks\<close>

text \<open>A backend at the default base URL whose health endpoint answers 200, whose
  filter options are the ones below and whose other endpoints all give one outcome; a
  backend that cannot be reached; one that answers every request with status 503; and
  the success envelope around a payload.\<close>

definition envelope :: "jsval \<Rightarrow> fetch_outcome" where
  "envelope d = Response 200 (Some (Obj [(''success'', Bool True), (''data'', d)]))"

definition options_of :: "string list \<Rightarrow> jsval" where
  "options_of xs = Obj [(''available'', Arr (map Str xs)), (''all_options'', Arr (map Str xs))]"

definition example_options :: jsval where
  "example_options =
     Obj [(''categories'', options_of [''roads'', ''water'']),
          (''priorities'', options_of [''low'', ''medium'', ''high'', ''very_high'']),
          (''departments'', options_of [''Public Works'']),
          (''statuses'', options_of [''submitted'', ''in_progress'', ''resolved''])]"

definition example_env :: "fetch_outcome \<Rightarrow> env" where
  "example_env outcome =
     \<lparr>API_BASE_URL = ''http://localhost:8000/api'',
      fetch = (\<lambda>url. if url = ''http://localhost:8000/health'' then Response 200 None
                    else if url = ''http://localhost:8000/api/filter-options''
                    then envelope example_options
                    else outcome)\<rparr>"

definition offline_env :: env where
  "offline_env =
     \<lparr>API_BASE_URL = ''http://localhost:8000/api'', fetch = (\<lambda>url. Rejected ''Failed to fetch'')\<rparr>"

definition unhealthy_env :: env where
  "unhealthy_env =
     \<lparr>API_BASE_URL = ''http://localhost:8000/api'', fetch = (\<lambda>url. Response 503 None)\<rparr>"

definition example_filters :: location_filters where
  "example_filters =
     \<lparr>category = Some ''roads'', priority = None, department = None, status = Some ''resolved''\<rparr>"

section \<open>Reading the properties\<close>

text \<open>The four filter dimensions with the values selected in a render, and those with
  a value.\<close>

definition dimensions :: "heatmap_state \<Rightarrow> (string \<times> string) list" where
  "dimensions c =
     [(''category'', selectedCategory c), (''priority'', selectedPriority c),
      (''department'', selectedDepartment c), (''status'', selectedStatus c)]"

definition active_dimensions :: "heatmap_state \<Rightarrow> (string \<times> string) list" where
  "active_dimensions c = filter (\<lambda>p. snd p \<noteq> []) (dimensions c)"

text \<open>The parameter names of a query string, read without decoding: the pairs are
  separated by \<open>&\<close> and a name ends at the first \<open>=\<close>.\<close>

definition query_names :: "string \<Rightarrow> string list" where
  "query_names q = map (takeWhile (\<lambda>c. c \<noteq> CHR ''='')) (split_on (CHR ''&'') q)"

text \<open>Every location the view holds passes the coordinate test.\<close>

definition all_valid :: "heatmap_state \<Rightarrow> bool" where
  "all_valid s = list_all (\<lambda>loc. valid_location loc = Inr True) (locations s)"

text \<open>Example data: a location object with the given coordinates, a render with two
  selections, and a chat state with a given input.\<close>

definition place :: "jsnum \<Rightarrow> jsnum \<Rightarrow> jsval" where
  "place lat lng = Obj [(''lat'', Num lat), (''lng'', Num lng), (''name'', Str ''Report'')]"

definition filtered_example :: heatmap_state where
  "filtered_example = heatmap_initial\<lparr>selectedCategory := ''roads'', selectedStatus := ''resolved''\<rparr>"

definition chat_example :: "string \<Rightarrow> bool \<Rightarrow> chat_state" where
  "chat_example input busy = (chat_initial 0)\<lparr>inputMessage := input, isLoading := busy\<rparr>"

text \<open>Valid coordinates as the spec words them: latitude and longitude are present,
  are numbers and are not \<open>NaN\<close>. And what the code asks for on top: neither is 0.\<close>

definition spec_valid_coordinates :: "jsval \<Rightarrow> bool" where
  "spec_valid_coordinates loc =
     (case (get_prop loc ''lat'', get_prop loc ''lng'') of
        (Inr (Num a), Inr (Num b)) \<Rightarrow> \<not> isNaN a \<and> \<not> isNaN b
      | _ \<Rightarrow> False)"

definition nonzero_coordinates :: "jsval \<Rightarrow> bool" where
  "nonzero_coordinates loc =
     (spec_valid_coordinates loc \<and> get_prop loc ''lat'' \<noteq> Inr (Num (Finite 0)) \<and>
      get_prop loc ''lng'' \<noteq> Inr (Num (Finite 0)))"

text \<open>The view after a first load that brought one location.\<close>

definition loaded_example :: heatmap_state where
  "loaded_example =
     fst (heatmap_run heatmap_initial
            [(example_env (envelope (Arr [place (Finite 23) (Finite 85)])), Mount)]
            heatmap_initial)"

text \<open>
  A reply in the format the formatter recognises: an introduction, then sections, each
  a heading \<^verbatim>\<open>**Complaint N:**\<close> and one line \<^verbatim>\<open>* **Label:** value\<close> for each of its
  fields, in any order and number. A value is plain when it has no asterisk and no
  line break. \<open>fields_data\<close> is the card such a section describes: each field holds the
  trimmed value of the last line with its label.
\<close>

datatype field = ReportId | Category | Priority | Description | Status | CreatedAt

fun label :: "field \<Rightarrow> string" where
  "label ReportId = ''**Report ID:**''"
| "label Category = ''**Category:**''"
| "label Priority = ''**Priority:**''"
| "label Description = ''**Description:**''"
| "label Status = ''**Status:**''"
| "label CreatedAt = ''**Created At:**''"

definition field_line :: "field \<times> string \<Rightarrow> string" where
  "field_line fv = ''* '' @ label (fst fv) @ '' '' @ snd fv"









fun prepend :: "string \<Rightarrow> string list \<Rightarrow> string list" where
  "prepend v [] = [v]"
| "prepend v (p # ps) = (v @ p) # ps"


definition body :: "(field \<times> string) list \<Rightarrow> string" where
  "body fs = concat (map (\<lambda>fv. field_line fv @ [CHR 0x0A]) fs)"







text \<open>A backend that filters: it answers the unfiltered location URL with two
  locations and the URL for the category \<open>roads\<close> with the first of them. And the view
  after mounting against it and choosing that category.\<close>

definition filtering_env :: env where
  "filtering_env =
     \<lparr>API_BASE_URL = ''http://localhost:8000/api'',
      fetch = (\<lambda>url.
        if url = ''http://localhost:8000/health'' then Response 200 None
        else if url = ''http://localhost:8000/api/filter-options'' then envelope example_options
        else if url = ''http://localhost:8000/api/reports/by-location''
          then envelope (Arr [place (Finite 23) (Finite 85), place (Finite 24) (Finite 86)])
        else if url = ''http://localhost:8000/api/reports/by-location?category=roads''
          then envelope (Arr [place (Finite 23) (Finite 85)])
        else Response 404 None)\<rparr>"

definition roads_only :: location_filters where
  "roads_only = \<lparr>category = Some ''roads'', priority = None, department = None, status = None\<rparr>"

definition selected_roads :: heatmap_state where
  "selected_roads =
     fst (heatmap_run heatmap_initial
            [(filtering_env, Mount), (filtering_env, SetCategory ''roads'')] heatmap_initial)"




section \<open>Properties\<close>

subsection \<open>The gateway\<close>

lemma base_example [simp]: "API_BASE_URL (example_env out) = ''http://localhost:8000/api''"
  by (simp add: example_env_def)

lemma health_url_example [simp]: "health_url (example_env out) = ''http://localhost:8000/health''"
  by (simp add: health_url_def example_env_def)

lemma health_url_offline [simp]: "health_url offline_env = ''http://localhost:8000/health''"
  by (simp add: health_url_def offline_env_def)

lemma checkConnection_example [simp]: "checkConnection (example_env out) = Inr True"
  by (simp add: checkConnection_def response_ok_def example_env_def health_url_def)

lemma checkConnection_offline [simp]: "checkConnection offline_env = Inr False"
  by (simp add: checkConnection_def offline_env_def)

lemma location_url_example:
  "location_url (example_env out) (Some example_filters) =
     ''http://localhost:8000/api/reports/by-location?category=roads&status=resolved''"
  by code_simp

lemma location_url_none:
  "location_url (example_env out) None = ''http://localhost:8000/api/reports/by-location''"
  "location_url offline_env None = ''http://localhost:8000/api/reports/by-location''"
  by (simp_all add: location_url_def queryString_def location_params_def example_env_def offline_env_def)

text \<open>
  C8. The health probe never rejects: whatever the network does, \<open>checkConnection\<close>
  resolves to a boolean; it resolves to \<open>true\<close> exactly when the health endpoint
  answers with a status from 200 to 299, and to \<open>false\<close> in every other case (the
  endpoint cannot be reached, the request is rejected, the status is not 2xx).
\<close>

theorem checkConnection_never_rejects:
  "(\<exists>b. checkConnection e = Inr b) \<and>
   (\<forall>msg. fetch e (health_url e) = Rejected msg \<longrightarrow> checkConnection e = Inr False) \<and>
   (\<forall>code body. fetch e (health_url e) = Response code body \<and> \<not> (200 \<le> code \<and> code \<le> 299) \<longrightarrow>
      checkConnection e = Inr False) \<and>
   (checkConnection e = Inr True \<longleftrightarrow>
      (\<exists>code body. fetch e (health_url e) = Response code body \<and> 200 \<le> code \<and> code \<le> 299)) \<and>
   (checkConnection e \<noteq> Inr True \<longleftrightarrow> checkConnection e = Inr False)"
  by (auto simp: checkConnection_def response_ok_def split: fetch_outcome.splits)

theorem checkConnection_never_rejects_witness:
  "checkConnection offline_env = Inr False \<and> checkConnection unhealthy_env = Inr False \<and>
   checkConnection (example_env (Rejected ''Failed to fetch'')) = Inr True"
proof (intro conjI)
  have "fetch offline_env (health_url offline_env) = Rejected ''Failed to fetch''"
    by (simp add: offline_env_def)
  with checkConnection_never_rejects [of offline_env]
  show "checkConnection offline_env = Inr False"
    by blast
next
  have "fetch unhealthy_env (health_url unhealthy_env) = Response 503 None \<and>
      \<not> (200 \<le> (503::nat) \<and> (503::nat) \<le> 299)"
    by (simp add: unhealthy_env_def)
  with checkConnection_never_rejects [of unhealthy_env]
  show "checkConnection unhealthy_env = Inr False"
    by blast
next
  let ?e = "example_env (Rejected ''Failed to fetch'')"
  have "fetch ?e (health_url ?e) = Response 200 None \<and> 200 \<le> (200::nat) \<and> (200::nat) \<le> 299"
    by (simp add: health_url_def example_env_def)
  with checkConnection_never_rejects [of ?e]
  show "checkConnection ?e = Inr True"
    by blast
qed

text \<open>
  C9. \<open>getReportsByLocation\<close> never rejects: for every filter argument and every
  network it resolves to an array, and it resolves to the empty array whenever
  \<open>fetchWithErrorHandling\<close> throws (the request is rejected, the status is not 2xx,
  the body is not JSON, the envelope's \<open>success\<close> is falsy) and whenever the payload is
  not an array; a successful fetch of an empty list gives the same result.
\<close>

theorem getReportsByLocation_never_rejects:
  "(\<exists>xs. getReportsByLocation e f = Inr xs) \<and>
   (\<forall>err. fetchWithErrorHandling e (location_url e f) = Inl err \<longrightarrow>
      getReportsByLocation e f = Inr []) \<and>
   (\<forall>msg. fetch e (location_url e f) = Rejected msg \<longrightarrow> getReportsByLocation e f = Inr []) \<and>
   (\<forall>code body. fetch e (location_url e f) = Response code body \<and> \<not> response_ok code \<longrightarrow>
      getReportsByLocation e f = Inr []) \<and>
   (\<forall>code. fetch e (location_url e f) = Response code None \<longrightarrow>
      getReportsByLocation e f = Inr []) \<and>
   (\<forall>code d v. fetch e (location_url e f) = Response code (Some d) \<and>
      get_prop d ''success'' = Inr v \<and> \<not> truthy v \<longrightarrow> getReportsByLocation e f = Inr []) \<and>
   (\<forall>d. fetchWithErrorHandling e (location_url e f) = Inr d \<and> (\<forall>xs. d \<noteq> Arr xs) \<longrightarrow>
      getReportsByLocation e f = Inr []) \<and>
   (fetchWithErrorHandling e (location_url e f) = Inr (Arr []) \<longrightarrow>
      getReportsByLocation e f = Inr [])"
  by (auto simp: getReportsByLocation_def fetchWithErrorHandling_def
      split: sum.splits jsval.splits fetch_outcome.splits option.splits if_splits)


theorem getReportsByLocation_never_rejects_witness:
  "getReportsByLocation offline_env None = Inr [] \<and>
   getReportsByLocation (example_env (Response 500 None)) (Some example_filters) = Inr [] \<and>
   getReportsByLocation (example_env (Response 200 None)) None = Inr [] \<and>
   getReportsByLocation
     (example_env (Response 200 (Some (Obj [(''success'', Bool False), (''error'', Str ''no'')]))))
     None = Inr [] \<and>
   getReportsByLocation (example_env (envelope (Str ''not a list''))) None = Inr [] \<and>
   getReportsByLocation (example_env (envelope (Arr []))) None = Inr []"
proof (intro conjI)
  have "fetch offline_env (location_url offline_env None) = Rejected ''Failed to fetch''"
    by (simp add: offline_env_def)
  with getReportsByLocation_never_rejects [of offline_env None]
  show "getReportsByLocation offline_env None = Inr []"
    by blast
next
  let ?e = "example_env (Response 500 None)"
  have "fetch ?e (location_url ?e (Some example_filters)) = Response 500 None \<and> \<not> response_ok 500"
    by (simp add: location_url_example) (simp add: example_env_def response_ok_def)
  with getReportsByLocation_never_rejects [of ?e "Some example_filters"]
  show "getReportsByLocation ?e (Some example_filters) = Inr []"
    by blast
next
  let ?e = "example_env (Response 200 None)"
  have "fetch ?e (location_url ?e None) = Response 200 None"
    by (simp add: location_url_none) (simp add: example_env_def)
  with getReportsByLocation_never_rejects [of ?e None]
  show "getReportsByLocation ?e None = Inr []"
    by blast
next
  let ?d = "Obj [(''success'', Bool False), (''error'', Str ''no'')]"
  let ?e = "example_env (Response 200 (Some ?d))"
  have "fetch ?e (location_url ?e None) = Response 200 (Some ?d) \<and>
      get_prop ?d ''success'' = Inr (Bool False) \<and> \<not> truthy (Bool False)"
    by (simp add: location_url_none) (simp add: example_env_def)
  with getReportsByLocation_never_rejects [of ?e None]
  show "getReportsByLocation ?e None = Inr []"
    by blast
next
  let ?e = "example_env (envelope (Str ''not a list''))"
  have "fetchWithErrorHandling ?e (location_url ?e None) = Inr (Str ''not a list'') \<and>
      (\<forall>xs. Str ''not a list'' \<noteq> Arr xs)"
    by (simp add: location_url_none)
       (simp add: fetchWithErrorHandling_def example_env_def envelope_def response_ok_def)
  with getReportsByLocation_never_rejects [of ?e None]
  show "getReportsByLocation ?e None = Inr []"
    by blast
next
  let ?e = "example_env (envelope (Arr []))"
  have "fetchWithErrorHandling ?e (location_url ?e None) = Inr (Arr [])"
    by (simp add: location_url_none)
       (simp add: fetchWithErrorHandling_def example_env_def envelope_def response_ok_def)
  with getReportsByLocation_never_rejects [of ?e None]
  show "getReportsByLocation ?e None = Inr []"
    by blast
qed

subsection \<open>The query of a location fetch\<close>

lemma hex_digit_in: "hex_digit n \<in> set ''0123456789ABCDEF''"
  unfolding hex_digit_def by (rule nth_mem) simp

lemma hex_digit_not_sep: "hex_digit n \<noteq> CHR ''&''" "hex_digit n \<noteq> CHR ''=''"
  using hex_digit_in [of n] by auto

lemma sep_not_safe: "CHR ''&'' \<notin> set urlencoded_safe" "CHR ''='' \<notin> set urlencoded_safe"
  by (simp_all add: urlencoded_safe_def)

lemma encode_byte_no_sep: "CHR ''&'' \<notin> set (encode_byte b)" "CHR ''='' \<notin> set (encode_byte b)"
proof -
  show "CHR ''&'' \<notin> set (encode_byte b)"
  proof (cases "b = 32")
    case True
    then show ?thesis by (simp add: encode_byte_def)
  next
    case False
    show ?thesis
    proof (cases "char_of b \<in> set urlencoded_safe")
      case True
      with False sep_not_safe(1) show ?thesis by (auto simp: encode_byte_def)
    next
      case no: False
      with False hex_digit_not_sep(1) show ?thesis
        by (simp add: encode_byte_def) metis
    qed
  qed
  show "CHR ''='' \<notin> set (encode_byte b)"
  proof (cases "b = 32")
    case True
    then show ?thesis by (simp add: encode_byte_def)
  next
    case False
    show ?thesis
    proof (cases "char_of b \<in> set urlencoded_safe")
      case True
      with False sep_not_safe(2) show ?thesis by (auto simp: encode_byte_def)
    next
      case no: False
      with False hex_digit_not_sep(2) show ?thesis
        by (simp add: encode_byte_def) metis
    qed
  qed
qed

lemma urlencode_no_sep: "CHR ''&'' \<notin> set (urlencode s)" "CHR ''='' \<notin> set (urlencode s)"
  using encode_byte_no_sep by (auto simp: urlencode_def)

lemma split_on_nonempty: "split_on d s \<noteq> []"
  by (induction s) (auto split: list.splits)

lemma split_on_append:
  "d \<notin> set a \<Longrightarrow> split_on d (a @ d # rest) = a # split_on d rest"
  by (induction a) (auto split: list.splits)

lemma split_on_none: "d \<notin> set a \<Longrightarrow> split_on d a = [a]"
  by (induction a) (auto split: list.splits)

lemma takeWhile_name:
  "CHR ''='' \<notin> set k \<Longrightarrow> takeWhile (\<lambda>c. c \<noteq> CHR ''='') (k @ CHR ''='' # v) = k"
  by (induction k) auto

lemma query_names_toString:
  "ps \<noteq> [] \<Longrightarrow> query_names (URLSearchParams_toString ps) = map (\<lambda>p. urlencode (fst p)) ps"
proof (induction ps rule: URLSearchParams_toString.induct)
  case 1
  then show ?case by simp
next
  case (2 k v)
  have "CHR ''&'' \<notin> set (urlencode k @ CHR ''='' # urlencode v)"
    using urlencode_no_sep by simp
  then show ?case
    using urlencode_no_sep takeWhile_name
    by (simp add: query_names_def split_on_none)
next
  case (3 k v p ps)
  have "CHR ''&'' \<notin> set (urlencode k @ CHR ''='' # urlencode v)"
    using urlencode_no_sep by simp
  then have "split_on (CHR ''&'') ((urlencode k @ CHR ''='' # urlencode v) @ CHR ''&'' # URLSearchParams_toString (p # ps))
     = (urlencode k @ CHR ''='' # urlencode v) # split_on (CHR ''&'') (URLSearchParams_toString (p # ps))"
    by (rule split_on_append)
  then show ?case
    using 3 urlencode_no_sep takeWhile_name
    by (simp add: query_names_def)
qed

lemma toString_empty: "URLSearchParams_toString ps = [] \<longleftrightarrow> ps = []"
  by (induction ps rule: URLSearchParams_toString.induct) auto

lemma location_params_active:
  "location_params (filters_arg (build_filters True c)) = active_dimensions c"
  by (simp add: location_params_def filters_arg_def build_filters_def set_if_def append_if_def
      active_dimensions_def dimensions_def)

lemma urlencode_names:
  "urlencode ''category'' = ''category''" "urlencode ''priority'' = ''priority''"
  "urlencode ''department'' = ''department''" "urlencode ''status'' = ''status''"
  by code_simp+

lemma names_active: "map (\<lambda>p. urlencode (fst p)) (active_dimensions c) = map fst (active_dimensions c)"
  by (simp add: active_dimensions_def dimensions_def urlencode_names)

lemma last_requests:
  "checkConnection e = Inr True \<Longrightarrow>
   last (snd (loadReportLocations a c e s)) = location_url e (filters_arg (build_filters a c))"
  by (simp add: loadReportLocations_def Let_def case_prod_beta split: sum.splits)

lemma active_example:
  "active_dimensions filtered_example = [(''category'', ''roads''), (''status'', ''resolved'')]"
  by (simp add: active_dimensions_def dimensions_def filtered_example_def heatmap_initial_def)

lemma toString_example:
  "URLSearchParams_toString [(''category'', ''roads''), (''status'', ''resolved'')] =
     ''category=roads&status=resolved''"
  by code_simp

text \<open>
  The query of a filtered fetch, read from the render \<open>c\<close> whose function is called:
  \<open>loadReportLocations(true)\<close> appends exactly the dimensions whose selected value in
  \<open>c\<close> is not empty, each with its value, in the order category, priority, department,
  status; the URL is \<^verbatim>\<open>/reports/by-location\<close> followed by nothing when no dimension is
  active and by \<open>?\<close> and the serialized pairs otherwise; the parameter names that can be
  read from that query string are exactly the names of the active dimensions.
\<close>

lemma filtered_fetch_query:
  "location_params (filters_arg (build_filters True c)) = active_dimensions c \<and>
   ((name, v) \<in> set (active_dimensions c) \<longleftrightarrow> (name, v) \<in> set (dimensions c) \<and> v \<noteq> []) \<and>
   (name \<in> set (map fst (active_dimensions c)) \<longleftrightarrow>
      (\<exists>v. map_of (dimensions c) name = Some v \<and> v \<noteq> [])) \<and>
   location_url e (filters_arg (build_filters True c)) =
     API_BASE_URL e @ ''/reports/by-location'' @
       (if active_dimensions c = [] then []
        else ''?'' @ URLSearchParams_toString (active_dimensions c)) \<and>
   (active_dimensions c \<noteq> [] \<longrightarrow>
      query_names (URLSearchParams_toString (active_dimensions c)) =
        map fst (active_dimensions c)) \<and>
   (checkConnection e = Inr True \<longrightarrow>
      last (snd (loadReportLocations True c e s)) =
        location_url e (filters_arg (build_filters True c)))"
proof -
  have "(name, v) \<in> set (active_dimensions c) \<longleftrightarrow> (name, v) \<in> set (dimensions c) \<and> v \<noteq> []"
    by (auto simp: active_dimensions_def)
  moreover have "name \<in> set (map fst (active_dimensions c)) \<longleftrightarrow>
      (\<exists>v. map_of (dimensions c) name = Some v \<and> v \<noteq> [])"
    by (auto simp: active_dimensions_def dimensions_def)
  ultimately show ?thesis
    using query_names_toString [of "active_dimensions c"]
    by (simp add: location_params_active location_url_def queryString_def toString_empty
        names_active last_requests)
qed

lemma filtered_fetch_query_example:
  "active_dimensions filtered_example = [(''category'', ''roads''), (''status'', ''resolved'')] \<and>
   location_url (example_env (envelope (Arr []))) (filters_arg (build_filters True filtered_example)) =
     ''http://localhost:8000/api/reports/by-location?category=roads&status=resolved'' \<and>
   query_names ''category=roads&status=resolved'' = [''category'', ''status''] \<and>
   last (snd (loadReportLocations True filtered_example (example_env (envelope (Arr [])))
                filtered_example)) =
     ''http://localhost:8000/api/reports/by-location?category=roads&status=resolved''"
  using filtered_fetch_query [of filtered_example "''category''" "''roads''"
      "example_env (envelope (Arr []))" filtered_example,
      unfolded active_example toString_example]
  by (simp add: active_example)

subsection \<open>The first fetch and the later ones\<close>

lemma valid_place [simp]:
  "valid_location (place a b) = Inr (a \<noteq> NaN \<and> a \<noteq> Finite 0 \<and> b \<noteq> NaN \<and> b \<noteq> Finite 0)"
  by (cases a; cases b) (auto simp: valid_location_def place_def not_NaN_def)

lemma fetch_example_api:
  "fetch (example_env out) (API_BASE_URL (example_env out) @ ''/reports/by-location'' @ q) = out"
  by (simp add: example_env_def)

lemma fetchWithErrorHandling_example:
  "fetchWithErrorHandling (example_env (envelope d))
     (API_BASE_URL (example_env (envelope d)) @ ''/reports/by-location'' @ q) = Inr d"
  unfolding fetchWithErrorHandling_def fetch_example_api
  by (simp add: envelope_def response_ok_def)

lemma getFilterOptions_example [simp]: "getFilterOptions (example_env out) = Inr example_options"
  by (simp add: getFilterOptions_def fetchWithErrorHandling_def example_env_def envelope_def
      response_ok_def)

lemma truthy_example_options [simp]: "truthy example_options"
  by (simp add: example_options_def)

lemma getReportsByLocation_example [simp]:
  "getReportsByLocation (example_env (envelope (Arr xs))) f = Inr xs"
  using fetchWithErrorHandling_example [of "Arr xs" "queryString f"]
  by (simp add: getReportsByLocation_def location_url_def)

lemma getReportsByLocation_failed [simp]:
  "getReportsByLocation (example_env (Response 500 None)) f = Inr []"
  using fetch_example_api [of "Response 500 None" "queryString f"]
  by (simp add: getReportsByLocation_def location_url_def fetchWithErrorHandling_def response_ok_def)

lemma query_roads: "queryString (Some \<lparr>category = Some ''roads'', priority = None, department = None, status = None\<rparr>) = ''?category=roads''"
  by code_simp

lemma query_none: "queryString None = []"
  by (simp add: queryString_def location_params_def)

lemma mount_fetch_unfiltered:
  "location_url e (filters_arg (build_filters False c)) = API_BASE_URL e @ ''/reports/by-location''"
  by (simp add: build_filters_def filters_arg_def location_url_def query_none)

lemma tick_requests_fixed:
  "snd (heatmap_step first e Tick s) = snd (heatmap_step first e Tick s')"
  by (simp add: loadReportLocations_def load_filter_options_def Let_def case_prod_beta
      split: sum.splits)

lemma tick_fetch_unfiltered:
  "checkConnection e = Inr True \<Longrightarrow>
   last (snd (heatmap_step heatmap_initial e Tick s)) = API_BASE_URL e @ ''/reports/by-location''"
  by (simp add: last_requests build_filters_def filters_arg_def set_if_def heatmap_initial_def
      location_url_def query_none)

text \<open>
  C2. The first location fetch of a mounted view carries no filter parameter. Of the
  later fetches, the one a changed selection triggers carries the current selection,
  but the one a timer tick triggers does not: on the trace mount, select the category
  \<open>roads\<close>, tick, the requests are the health probe, the filter options and the
  unfiltered locations (mount), the health probe and the locations of category roads
  (selection), and again the health probe, the filter options and the unfiltered
  locations (tick), while the selected category is still \<open>roads\<close>. The two lemmas
  above say it for every state: what a tick requests does not depend on the current
  state, and with the first render's empty selections it is the unfiltered URL.
\<close>

theorem timer_tick_trace:
  "snd (heatmap_run heatmap_initial
         [(example_env (envelope (Arr [place (Finite 23) (Finite 85)])), Mount),
          (example_env (envelope (Arr [place (Finite 23) (Finite 85)])), SetCategory ''roads''),
          (example_env (envelope (Arr [place (Finite 23) (Finite 85)])), Tick)]
         heatmap_initial) =
     [''http://localhost:8000/health'',
      ''http://localhost:8000/api/filter-options'',
      ''http://localhost:8000/api/reports/by-location'',
      ''http://localhost:8000/health'',
      ''http://localhost:8000/api/reports/by-location?category=roads'',
      ''http://localhost:8000/health'',
      ''http://localhost:8000/api/filter-options'',
      ''http://localhost:8000/api/reports/by-location''] \<and>
   selectedCategory (fst (heatmap_run heatmap_initial
         [(example_env (envelope (Arr [place (Finite 23) (Finite 85)])), Mount),
          (example_env (envelope (Arr [place (Finite 23) (Finite 85)])), SetCategory ''roads''),
          (example_env (envelope (Arr [place (Finite 23) (Finite 85)])), Tick)]
         heatmap_initial)) = ''roads''"
  by (simp add: heatmap_initial_def loadReportLocations_def load_filter_options_def
      build_filters_def filters_arg_def set_if_def filters_effect_def selections_def
      set_valid_locations_def location_url_def query_roads query_none Let_def)

lemma roads_url:
  "location_url filtering_env (Some roads_only) = ''http://localhost:8000/api/reports/by-location?category=roads''"
  "location_url filtering_env None = ''http://localhost:8000/api/reports/by-location''"
  by code_simp+

lemma filtering_env_simps [simp]:
  "checkConnection filtering_env = Inr True"
  "health_url filtering_env = ''http://localhost:8000/health''"
  "API_BASE_URL filtering_env = ''http://localhost:8000/api''"
  "getFilterOptions filtering_env = Inr example_options"
  by (simp_all add: checkConnection_def health_url_def filtering_env_def response_ok_def
      getFilterOptions_def fetchWithErrorHandling_def envelope_def)

lemma filtering_env_locations:
  "getReportsByLocation filtering_env (Some roads_only) = Inr [place (Finite 23) (Finite 85)]"
  "getReportsByLocation filtering_env None =
     Inr [place (Finite 23) (Finite 85), place (Finite 24) (Finite 86)]"
  unfolding getReportsByLocation_def roads_url
  by (simp_all add: fetchWithErrorHandling_def filtering_env_def envelope_def response_ok_def)

lemma after_mount:
  "heatmap_step heatmap_initial filtering_env Mount heatmap_initial =
     (heatmap_initial\<lparr>locations := [place (Finite 23) (Finite 85), place (Finite 24) (Finite 86)],
        loading := False, isConnected := True, filterOptions := example_options\<rparr>,
      [''http://localhost:8000/health'', ''http://localhost:8000/api/filter-options'',
       ''http://localhost:8000/api/reports/by-location''])"
  by (simp add: loadReportLocations_def load_filter_options_def build_filters_def filters_arg_def
      Let_def filtering_env_locations roads_url set_valid_locations_def heatmap_initial_def)

lemma selected_roads_state:
  "selected_roads =
     heatmap_initial\<lparr>locations := [place (Finite 23) (Finite 85)],
        loading := False, isConnected := True, filterOptions := example_options,
        selectedCategory := ''roads''\<rparr>"
  unfolding selected_roads_def
  apply (simp add: after_mount del: heatmap_step.simps(1))
  apply (simp add: filters_effect_def selections_def loadReportLocations_def load_filter_options_def
      build_filters_def filters_arg_def set_if_def Let_def heatmap_initial_def
      filtering_env_locations [unfolded roads_only_def] roads_url [unfolded roads_only_def]
      set_valid_locations_def)
  done

text \<open>
  C1. A filtered location fetch does not always send the dimensions that are selected.
  The view is mounted against the filtering backend and the category \<open>roads\<close> is
  chosen: the one active dimension is the category, the view holds the one location
  the backend gives for it, and a manual refresh requests \<^verbatim>\<open>?category=roads\<close> and
  keeps that location. The timer tick, which also calls \<open>loadReportLocations(true)\<close>,
  requests the URL without a query string, and the view then holds both locations of
  the unfiltered answer while \<open>roads\<close> is still selected.
\<close>

theorem tick_drops_selection:
  "active_dimensions selected_roads = [(''category'', ''roads'')] \<and>
   locations selected_roads = [place (Finite 23) (Finite 85)] \<and>
   getReportsByLocation filtering_env (filters_arg (build_filters True selected_roads)) =
     Inr [place (Finite 23) (Finite 85)] \<and>
   getReportsByLocation filtering_env None =
     Inr [place (Finite 23) (Finite 85), place (Finite 24) (Finite 86)] \<and>
   heatmap_step heatmap_initial filtering_env Tick selected_roads =
     (selected_roads\<lparr>locations := [place (Finite 23) (Finite 85), place (Finite 24) (Finite 86)]\<rparr>,
      [''http://localhost:8000/health'', ''http://localhost:8000/api/filter-options'',
       ''http://localhost:8000/api/reports/by-location'']) \<and>
   heatmap_step heatmap_initial filtering_env Refresh selected_roads =
     (selected_roads,
      [''http://localhost:8000/health'',
       ''http://localhost:8000/api/reports/by-location?category=roads''])"
  unfolding selected_roads_state
  by (simp add: active_dimensions_def dimensions_def heatmap_initial_def loadReportLocations_def
      load_filter_options_def build_filters_def filters_arg_def set_if_def Let_def
      filtering_env_locations [unfolded roads_only_def] roads_url [unfolded roads_only_def]
      set_valid_locations_def)

subsection \<open>Coordinates\<close>

lemma filter_valid_sound:
  "filter_valid xs = Inr ys \<Longrightarrow> loc \<in> set ys \<Longrightarrow> loc \<in> set xs \<and> valid_location loc = Inr True"
proof (induction xs arbitrary: ys)
  case Nil
  then show ?case by simp
next
  case (Cons x xs)
  then show ?case
    by (auto split: sum.splits if_splits)
qed

lemma all_valid_set_valid_locations: "all_valid (set_valid_locations xs s)"
  by (auto simp: all_valid_def set_valid_locations_def list_all_iff
      split: sum.splits dest: filter_valid_sound)

lemma all_valid_load_filter_options:
  "all_valid s \<Longrightarrow> all_valid (fst (load_filter_options c e s))"
  by (auto simp: all_valid_def load_filter_options_def split: sum.splits)

lemma locations_load_filter_options [simp]:
  "locations (fst (load_filter_options c e s)) = locations s"
  by (auto simp: load_filter_options_def split: sum.splits)

lemma all_valid_loadReportLocations:
  "all_valid s \<Longrightarrow> all_valid (fst (loadReportLocations a c e s))"
  using all_valid_set_valid_locations
  by (auto simp: loadReportLocations_def all_valid_def Let_def
      split: sum.splits prod.splits if_splits)

lemma all_valid_step: "all_valid s \<Longrightarrow> all_valid (fst (heatmap_step first e ev s))"
proof (cases ev)
  case Mount
  then show ?thesis if "all_valid s"
    using that all_valid_loadReportLocations
    by (simp add: Let_def case_prod_beta)
next
  case (SetCategory v)
  have "all_valid (s\<lparr>selectedCategory := v\<rparr>)" if "all_valid s"
    using that by (simp add: all_valid_def)
  then show ?thesis if "all_valid s"
    using that SetCategory all_valid_loadReportLocations by (simp add: filters_effect_def)
next
  case (SetPriority v)
  have "all_valid (s\<lparr>selectedPriority := v\<rparr>)" if "all_valid s"
    using that by (simp add: all_valid_def)
  then show ?thesis if "all_valid s"
    using that SetPriority all_valid_loadReportLocations by (simp add: filters_effect_def)
next
  case (SetDepartment v)
  have "all_valid (s\<lparr>selectedDepartment := v\<rparr>)" if "all_valid s"
    using that by (simp add: all_valid_def)
  then show ?thesis if "all_valid s"
    using that SetDepartment all_valid_loadReportLocations by (simp add: filters_effect_def)
next
  case (SetStatus v)
  have "all_valid (s\<lparr>selectedStatus := v\<rparr>)" if "all_valid s"
    using that by (simp add: all_valid_def)
  then show ?thesis if "all_valid s"
    using that SetStatus all_valid_loadReportLocations by (simp add: filters_effect_def)
next
  case ClearFilters
  have "all_valid (s\<lparr>selectedCategory := [], selectedPriority := [], selectedDepartment := [],
          selectedStatus := []\<rparr>)" if "all_valid s"
    using that by (simp add: all_valid_def)
  then show ?thesis if "all_valid s"
    using that ClearFilters all_valid_loadReportLocations by (simp add: filters_effect_def)
next
  case Refresh
  then show ?thesis if "all_valid s"
    using that all_valid_loadReportLocations by simp
next
  case Tick
  then show ?thesis if "all_valid s"
    using that all_valid_loadReportLocations by simp
qed

lemma all_valid_run: "all_valid s \<Longrightarrow> all_valid (fst (heatmap_run first evs s))"
proof (induction evs arbitrary: s)
  case Nil
  then show ?case by simp
next
  case (Cons a evs)
  obtain e ev where a: "a = (e, ev)" by (cases a)
  from Cons.prems have "all_valid (fst (heatmap_step first e ev s))"
    by (rule all_valid_step)
  then have "all_valid (fst (heatmap_run first evs (fst (heatmap_step first e ev s))))"
    by (rule Cons.IH)
  then show ?case
    by (simp add: a Let_def case_prod_beta)
qed

lemma all_valid_initial: "all_valid heatmap_initial"
  by (simp add: all_valid_def heatmap_initial_def)

lemma valid_location_zero:
  "get_prop loc ''lat'' = Inr (Num (Finite 0)) \<or> get_prop loc ''lng'' = Inr (Num (Finite 0))
   \<Longrightarrow> valid_location loc \<noteq> Inr True"
  by (auto simp: valid_location_def split: sum.splits)

lemma valid_location_iff:
  "valid_location loc = Inr True \<longleftrightarrow>
     (\<exists>a b. get_prop loc ''lat'' = Inr (Num a) \<and> get_prop loc ''lng'' = Inr (Num b) \<and>
        a \<noteq> NaN \<and> a \<noteq> Finite 0 \<and> b \<noteq> NaN \<and> b \<noteq> Finite 0)"
proof (cases "get_prop loc ''lat''")
  case (Inl err)
  then show ?thesis by (simp add: valid_location_def)
next
  case lat: (Inr lat)
  show ?thesis
  proof (cases "get_prop loc ''lng''")
    case (Inl err)
    with lat show ?thesis by (simp add: valid_location_def)
  next
    case lng: (Inr lng)
    show ?thesis
      by (cases lat; cases lng) (auto simp: valid_location_def lat lng not_NaN_def elim: isNaN.elims)
  qed
qed

lemma mount_example:
  "locations (fst (heatmap_run heatmap_initial [(example_env (envelope (Arr xs)), Mount)] heatmap_initial)) =
     locations (set_valid_locations xs heatmap_initial)"
  by (simp add: loadReportLocations_def load_filter_options_def Let_def heatmap_initial_def
      set_valid_locations_def split: sum.splits)

text \<open>
  C10. The coordinate test asks for truthy \<open>lat\<close> and \<open>lng\<close> before it looks at their
  type: a location whose latitude or longitude is 0 fails the test, although 0 is a
  number and not \<open>NaN\<close>, and no location the view holds, after any history, has a
  latitude or a longitude of 0.
\<close>

theorem zero_coordinates_excluded:
  "(get_prop loc ''lat'' = Inr (Num (Finite 0)) \<or> get_prop loc ''lng'' = Inr (Num (Finite 0)) \<longrightarrow>
      valid_location loc = Inr False) \<and>
   typeof (Num (Finite 0)) = ''number'' \<and> not_NaN (Num (Finite 0)) \<and>
   (loc \<in> set (locations (fst (heatmap_run first evs heatmap_initial))) \<longrightarrow>
      get_prop loc ''lat'' \<noteq> Inr (Num (Finite 0)) \<and> get_prop loc ''lng'' \<noteq> Inr (Num (Finite 0)))"
proof (intro conjI impI)
  assume "get_prop loc ''lat'' = Inr (Num (Finite 0)) \<or> get_prop loc ''lng'' = Inr (Num (Finite 0))"
  then show "valid_location loc = Inr False"
    by (cases loc) (auto simp: valid_location_def split: sum.splits)
next
  assume "loc \<in> set (locations (fst (heatmap_run first evs heatmap_initial)))"
  moreover have "all_valid (fst (heatmap_run first evs heatmap_initial))"
    using all_valid_initial by (rule all_valid_run)
  ultimately have v: "valid_location loc = Inr True"
    by (simp add: all_valid_def list_all_iff)
  then show "get_prop loc ''lat'' \<noteq> Inr (Num (Finite 0))" "get_prop loc ''lng'' \<noteq> Inr (Num (Finite 0))"
    using valid_location_zero [of loc] by auto
qed (simp_all add: not_NaN_def)

theorem zero_coordinates_excluded_witness:
  "valid_location (place (Finite 0) (Finite 85)) = Inr False \<and>
   valid_location (place (Finite 23) (Finite 0)) = Inr False \<and>
   locations (fst (heatmap_run heatmap_initial
      [(example_env (envelope (Arr [place (Finite 0) (Finite 85), place (Finite 23) (Finite 85),
                                    place (Finite 23) (Finite 0)])), Mount)]
      heatmap_initial)) = [place (Finite 23) (Finite 85)] \<and>
   get_prop (place (Finite 23) (Finite 85)) ''lat'' \<noteq> Inr (Num (Finite 0))"
proof -
  let ?run = "heatmap_run heatmap_initial
      [(example_env (envelope (Arr [place (Finite 0) (Finite 85), place (Finite 23) (Finite 85),
                                    place (Finite 23) (Finite 0)])), Mount)]
      heatmap_initial"
  have shown: "locations (fst ?run) = [place (Finite 23) (Finite 85)]"
    unfolding mount_example by (simp add: set_valid_locations_def)
  then have "place (Finite 23) (Finite 85) \<in> set (locations (fst ?run))"
    by simp
  moreover have "get_prop (place (Finite 0) (Finite 85)) ''lat'' = Inr (Num (Finite 0))"
    and "get_prop (place (Finite 23) (Finite 0)) ''lng'' = Inr (Num (Finite 0))"
    by (simp_all add: place_def)
  ultimately show ?thesis
    using shown
      zero_coordinates_excluded [of "place (Finite 0) (Finite 85)" heatmap_initial "[]"]
      zero_coordinates_excluded [of "place (Finite 23) (Finite 0)" heatmap_initial "[]"]
      zero_coordinates_excluded [of "place (Finite 23) (Finite 85)" heatmap_initial
        "[(example_env (envelope (Arr [place (Finite 0) (Finite 85), place (Finite 23) (Finite 85),
                                    place (Finite 23) (Finite 0)])), Mount)]"]
    by blast
qed

lemma isNaN_iff: "isNaN n \<longleftrightarrow> n = NaN"
  by (cases n) simp_all

lemma valid_location_nonzero: "valid_location loc = Inr True \<longleftrightarrow> nonzero_coordinates loc"
proof (cases "get_prop loc ''lat''")
  case (Inl err)
  then show ?thesis
    by (simp add: valid_location_iff nonzero_coordinates_def spec_valid_coordinates_def)
next
  case lat: (Inr lat)
  show ?thesis
  proof (cases "get_prop loc ''lng''")
    case (Inl err)
    with lat show ?thesis
      by (simp add: valid_location_iff nonzero_coordinates_def spec_valid_coordinates_def
          split: jsval.splits)
  next
    case lng: (Inr lng)
    show ?thesis
      by (cases lat; cases lng)
        (auto simp: valid_location_iff nonzero_coordinates_def spec_valid_coordinates_def lat lng
          isNaN_iff)
  qed
qed

lemma valid_location_total_nonzero: "nonzero_coordinates loc \<Longrightarrow> valid_location loc = Inr True"
  by (simp add: valid_location_nonzero)

lemma valid_location_NaN:
  "get_prop loc ''lat'' = Inr (Num NaN) \<or> get_prop loc ''lng'' = Inr (Num NaN) \<Longrightarrow>
   valid_location loc = Inr False"
  by (cases loc) (auto simp: valid_location_def not_NaN_def split: sum.splits)

lemma filter_valid_all:
  "list_all nonzero_coordinates xs \<Longrightarrow> filter_valid xs = Inr xs"
  by (induction xs) (simp_all add: valid_location_total_nonzero)

lemma filter_valid_append:
  "filter_valid xs = Inr xs' \<Longrightarrow> filter_valid ys = Inr ys' \<Longrightarrow> filter_valid (xs @ ys) = Inr (xs' @ ys')"
  by (induction xs arbitrary: xs') (auto split: sum.splits if_splits)

lemma filter_valid_one_bad:
  assumes "list_all nonzero_coordinates (xs @ ys)" and "valid_location bad = Inr False"
  shows "filter_valid (xs @ bad # ys) = Inr (xs @ ys)"
proof -
  from assms(1) have "filter_valid xs = Inr xs" "filter_valid ys = Inr ys"
    by (simp_all add: filter_valid_all)
  moreover from this(2) assms(2) have "filter_valid (bad # ys) = Inr ys"
    by simp
  ultimately show ?thesis
    using filter_valid_append by blast
qed

text \<open>
  C5, as the code has it. Every location the view holds, after any history, has a
  latitude and a longitude that are numbers, not \<open>NaN\<close> and not 0: a location whose
  coordinate is missing, not a number or \<open>NaN\<close> is never handed to the marker layer.
  When a connected load fetches a list of N locations whose coordinates are numbers
  other than \<open>NaN\<close> and 0, with one more location whose latitude or longitude is
  \<open>NaN\<close> anywhere among them, the view holds exactly those N locations.
\<close>

theorem invalid_coordinates_excluded:
  "(loc \<in> set (locations (fst (heatmap_run first evs heatmap_initial))) \<longrightarrow>
      nonzero_coordinates loc) \<and>
   (list_all nonzero_coordinates (xs @ ys) \<and>
    (get_prop bad ''lat'' = Inr (Num NaN) \<or> get_prop bad ''lng'' = Inr (Num NaN)) \<and>
    checkConnection e = Inr True \<and>
    fetchWithErrorHandling e (location_url e (filters_arg (build_filters a c))) =
      Inr (Arr (xs @ bad # ys)) \<longrightarrow>
      locations (fst (loadReportLocations a c e s)) = xs @ ys \<and>
      length (locations (fst (loadReportLocations a c e s))) = length xs + length ys)"
proof (intro conjI impI)
  assume "loc \<in> set (locations (fst (heatmap_run first evs heatmap_initial)))"
  moreover have "all_valid (fst (heatmap_run first evs heatmap_initial))"
    using all_valid_initial by (rule all_valid_run)
  ultimately have "valid_location loc = Inr True"
    by (simp add: all_valid_def list_all_iff)
  then show "nonzero_coordinates loc"
    by (simp add: valid_location_nonzero)
next
  assume h: "list_all nonzero_coordinates (xs @ ys) \<and>
    (get_prop bad ''lat'' = Inr (Num NaN) \<or> get_prop bad ''lng'' = Inr (Num NaN)) \<and>
    checkConnection e = Inr True \<and>
    fetchWithErrorHandling e (location_url e (filters_arg (build_filters a c))) =
      Inr (Arr (xs @ bad # ys))"
  then have "valid_location bad = Inr False"
    using valid_location_NaN by blast
  with h have "filter_valid (xs @ bad # ys) = Inr (xs @ ys)"
    using filter_valid_one_bad by blast
  with h show l: "locations (fst (loadReportLocations a c e s)) = xs @ ys"
    by (simp add: loadReportLocations_def getReportsByLocation_def set_valid_locations_def
        Let_def case_prod_beta)
  then show "length (locations (fst (loadReportLocations a c e s))) = length xs + length ys"
    by simp
qed

theorem invalid_coordinates_excluded_witness:
  "nonzero_coordinates (place (Finite 23) (Finite 85)) \<and>
   locations (fst (loadReportLocations False heatmap_initial
      (example_env (envelope (Arr [place (Finite 23) (Finite 85), place NaN (Finite 85),
                                   place (Finite 24) (Finite 86)])))
      heatmap_initial)) = [place (Finite 23) (Finite 85), place (Finite 24) (Finite 86)] \<and>
   length (locations (fst (loadReportLocations False heatmap_initial
      (example_env (envelope (Arr [place (Finite 23) (Finite 85), place NaN (Finite 85),
                                   place (Finite 24) (Finite 86)])))
      heatmap_initial))) = 2"
proof -
  let ?e = "example_env (envelope (Arr [place (Finite 23) (Finite 85), place NaN (Finite 85),
                                   place (Finite 24) (Finite 86)]))"
  let ?run = "heatmap_run heatmap_initial
      [(example_env (envelope (Arr [place (Finite 23) (Finite 85)])), Mount)] heatmap_initial"
  have n: "nonzero_coordinates (place (Finite 23) (Finite 85))"
    "nonzero_coordinates (place (Finite 24) (Finite 86))"
    by (simp_all add: valid_location_nonzero [symmetric])
  have m: "place (Finite 23) (Finite 85) \<in> set (locations (fst ?run))"
    unfolding mount_example by (simp add: set_valid_locations_def)
  have h: "list_all nonzero_coordinates ([place (Finite 23) (Finite 85)] @ [place (Finite 24) (Finite 86)]) \<and>
    (get_prop (place NaN (Finite 85)) ''lat'' = Inr (Num NaN) \<or>
     get_prop (place NaN (Finite 85)) ''lng'' = Inr (Num NaN)) \<and>
    checkConnection ?e = Inr True \<and>
    fetchWithErrorHandling ?e (location_url ?e (filters_arg (build_filters False heatmap_initial))) =
      Inr (Arr ([place (Finite 23) (Finite 85)] @ place NaN (Finite 85) # [place (Finite 24) (Finite 86)]))"
    using n fetchWithErrorHandling_example [of _ "[]"]
    by (simp add: mount_fetch_unfiltered) (simp add: place_def)
  from invalid_coordinates_excluded [of "place (Finite 23) (Finite 85)" heatmap_initial
      "[(example_env (envelope (Arr [place (Finite 23) (Finite 85)])), Mount)]"
      "[place (Finite 23) (Finite 85)]" "[place (Finite 24) (Finite 86)]" "place NaN (Finite 85)"
      ?e False heatmap_initial heatmap_initial] m h
  show ?thesis
    by simp
qed

text \<open>
  The sentence of the specification fails where a coordinate is 0: a fetched list of one location
  at latitude 0, valid in the spec's sense, and one with a \<open>NaN\<close> latitude leaves the
  view with no marker instead of one.
\<close>

theorem zero_latitude_dropped:
  "spec_valid_coordinates (place (Finite 0) (Finite 85)) \<and>
   get_prop (place NaN (Finite 85)) ''lat'' = Inr (Num NaN) \<and>
   getReportsByLocation
     (example_env (envelope (Arr [place (Finite 0) (Finite 85), place NaN (Finite 85)]))) None =
     Inr [place (Finite 0) (Finite 85), place NaN (Finite 85)] \<and>
   locations (fst (heatmap_run heatmap_initial
      [(example_env (envelope (Arr [place (Finite 0) (Finite 85), place NaN (Finite 85)])), Mount)]
      heatmap_initial)) = []"
  unfolding mount_example
  by (simp add: set_valid_locations_def) (simp add: spec_valid_coordinates_def place_def)

subsection \<open>The statistics view\<close>

lemma fetch_offline: "fetchWithErrorHandling offline_env url = Inl (Error (Text ''Failed to fetch''))"
  by (simp add: fetchWithErrorHandling_def offline_env_def)

text \<open>
  C4. When the statistics fetch fails, \<open>fetchStats\<close> stores the placeholder dataset
  and the error text, and the component returns the error panel with that text: the
  cards and the charts of the placeholder are not rendered.
\<close>

theorem statistics_failure_render:
  "getComprehensiveStats e = Inl err \<Longrightarrow>
     stats (fetchStats e s) = fallback_stats \<and>
     StatisticsSection (fetchStats e s) = ErrorPanel (Some ''Failed to load statistics'')"
  by (simp add: fetchStats_def StatisticsSection_def)

theorem statistics_failure_render_witness:
  "getComprehensiveStats offline_env = Inl (Error (Text ''Failed to fetch'')) \<and>
   stats (fetchStats offline_env statistics_initial) = fallback_stats \<and>
   StatisticsSection (fetchStats offline_env statistics_initial) =
     ErrorPanel (Some ''Failed to load statistics'')"
proof -
  have h: "getComprehensiveStats offline_env = Inl (Error (Text ''Failed to fetch''))"
    by (simp add: getComprehensiveStats_def fetch_offline)
  from statistics_failure_render [OF h, of statistics_initial] h show ?thesis by simp
qed

subsection \<open>The chat view\<close>

lemma trim_examples: "trim [] = []" "trim [CHR '' '', CHR 0x09, CHR 0x0A, CHR 0xA0] = []" "trim ''hello'' = ''hello''"
  by (simp_all add: trim_def ltrim_def rtrim_def js_whitespace_def)

text \<open>
  C7. \<open>sendMessage\<close> with an input that is empty or only white space, or while a
  request is outstanding (\<open>isLoading\<close>), changes nothing and sends nothing. In every
  other case it sends one request and sets \<open>isLoading\<close> until the request has settled,
  so that a second call in between is one of those that do nothing.
\<close>

theorem sendMessage_guard:
  "(trim (inputMessage s) = [] \<or> isLoading s \<longrightarrow>
      sendMessage_start now s = (s, None) \<and> sendMessage now later outcome s = (s, [])) \<and>
   (\<not> (trim (inputMessage s) = [] \<or> isLoading s) \<longrightarrow>
      snd (sendMessage_start now s) \<noteq> None \<and>
      isLoading (fst (sendMessage_start now s)) \<and>
      length (messages (fst (sendMessage_start now s))) = length (messages s) + 1 \<and>
      sendMessage_start again (fst (sendMessage_start now s)) =
        (fst (sendMessage_start now s), None) \<and>
      length (snd (sendMessage now later outcome s)) = 1 \<and>
      \<not> isLoading (fst (sendMessage now later outcome s)))"
  by (simp add: sendMessage_def sendMessage_start_def sendMessage_settle_def Let_def)

theorem sendMessage_guard_witness:
  "sendMessage 5 9 (Rejected ''down'') (chat_example [] False) = (chat_example [] False, []) \<and>
   sendMessage 5 9 (Rejected ''down'') (chat_example [CHR '' '', CHR 0x09, CHR 0x0A, CHR 0xA0] False)
     = (chat_example [CHR '' '', CHR 0x09, CHR 0x0A, CHR 0xA0] False, []) \<and>
   sendMessage 5 9 (Rejected ''down'') (chat_example ''hello'' True) = (chat_example ''hello'' True, []) \<and>
   length (snd (sendMessage 5 9 (Rejected ''down'') (chat_example ''hello'' False))) = 1 \<and>
   isLoading (fst (sendMessage_start 5 (chat_example ''hello'' False))) \<and>
   sendMessage_start 6 (fst (sendMessage_start 5 (chat_example ''hello'' False))) =
     (fst (sendMessage_start 5 (chat_example ''hello'' False)), None)"
  using sendMessage_guard [of "chat_example [] False" 5 9 "Rejected ''down''" 6]
    sendMessage_guard [of "chat_example [CHR '' '', CHR 0x09, CHR 0x0A, CHR 0xA0] False" 5 9 "Rejected ''down''" 6]
    sendMessage_guard [of "chat_example ''hello'' True" 5 9 "Rejected ''down''" 6]
    sendMessage_guard [of "chat_example ''hello'' False" 5 9 "Rejected ''down''" 6]
  by (simp add: chat_example_def chat_initial_def trim_examples)

subsection \<open>A fetch that fails\<close>

lemma loaded_example_locations: "locations loaded_example = [place (Finite 23) (Finite 85)]"
  unfolding loaded_example_def mount_example by (simp add: set_valid_locations_def)

lemma failed_example:
  "fetchWithErrorHandling (example_env (Response 500 None))
     (location_url (example_env (Response 500 None)) f) = Inl (Error (HttpStatus 500))"
  using fetch_example_api [of "Response 500 None" "queryString f"]
  by (simp add: location_url_def fetchWithErrorHandling_def response_ok_def)

text \<open>
  C3, as the code has it. When the fetch of the reports or of the report statistics
  fails, \<open>useReports\<close>, \<open>useReportStats\<close> and the table view keep the data they held,
  store an error message and end loading. The heatmap has no error state: when the
  health probe fails it keeps its locations and shows itself disconnected; when the
  probe succeeds and the location fetch fails, it empties its locations.
\<close>

theorem failed_fetch_effects:
  "(getAllReports e = Inl err \<longrightarrow>
      reports (fetchReports e s) = reports s \<and> reports_error (fetchReports e s) \<noteq> None \<and>
      \<not> reports_loading (fetchReports e s)) \<and>
   (getReportStats e = Inl err \<longrightarrow>
      report_stats (fetchReportStats e r) = report_stats r \<and>
      report_stats_error (fetchReportStats e r) \<noteq> None \<and>
      \<not> report_stats_loading (fetchReportStats e r)) \<and>
   (getAllReports e = Inl err \<longrightarrow>
      table_reports (table_fetchReports e t) = table_reports t \<and>
      table_error (table_fetchReports e t) = ''Failed to fetch complaints. Please try again.'' \<and>
      \<not> table_loading (table_fetchReports e t)) \<and>
   (checkConnection e = Inr False \<longrightarrow>
      locations (fst (loadReportLocations a c e h)) = locations h \<and>
      \<not> isConnected (fst (loadReportLocations a c e h))) \<and>
   (checkConnection e = Inr True \<and>
    fetchWithErrorHandling e (location_url e (filters_arg (build_filters a c))) = Inl err \<longrightarrow>
      locations (fst (loadReportLocations a c e h)) = [])"
proof (intro conjI impI)
  assume "checkConnection e = Inr True \<and>
    fetchWithErrorHandling e (location_url e (filters_arg (build_filters a c))) = Inl err"
  then show "locations (fst (loadReportLocations a c e h)) = []"
    by (simp add: loadReportLocations_def getReportsByLocation_def set_valid_locations_def
        Let_def case_prod_beta)
qed (auto simp: fetchReports_def fetchReportStats_def table_fetchReports_def
    loadReportLocations_def split: thrown.splits)

theorem failed_fetch_effects_witness:
  "reports (fetchReports offline_env useReports_initial) = Arr [] \<and>
   reports_error (fetchReports offline_env useReports_initial) = Some (Text ''Failed to fetch'') \<and>
   report_stats (fetchReportStats offline_env useReportStats_initial) = Null \<and>
   table_error (table_fetchReports offline_env table_initial) =
     ''Failed to fetch complaints. Please try again.'' \<and>
   locations (fst (loadReportLocations True loaded_example offline_env loaded_example)) =
     [place (Finite 23) (Finite 85)] \<and>
   locations (fst (loadReportLocations True loaded_example (example_env (Response 500 None))
                     loaded_example)) = []"
proof -
  have a: "getAllReports offline_env = Inl (Error (Text ''Failed to fetch''))"
    and b: "getReportStats offline_env = Inl (Error (Text ''Failed to fetch''))"
    by (simp_all add: getAllReports_def getReportStats_def fetch_offline)
  have c: "checkConnection (example_env (Response 500 None)) = Inr True \<and>
      fetchWithErrorHandling (example_env (Response 500 None))
        (location_url (example_env (Response 500 None))
           (filters_arg (build_filters True loaded_example))) = Inl (Error (HttpStatus 500))"
    by (simp add: failed_example)
  have d: "checkConnection offline_env = Inr False"
    by simp
  have e: "reports_error (fetchReports offline_env useReports_initial) = Some (Text ''Failed to fetch'')"
    by (simp add: fetchReports_def a)
  from a b d e
    failed_fetch_effects [of offline_env "Error (Text ''Failed to fetch'')" useReports_initial
      useReportStats_initial table_initial True loaded_example loaded_example]
    failed_fetch_effects [of "example_env (Response 500 None)" "Error (HttpStatus 500)"
      useReports_initial useReportStats_initial table_initial True loaded_example loaded_example,
      THEN conjunct2, THEN conjunct2, THEN conjunct2, THEN conjunct2, rule_format, OF c]
  show ?thesis
    by (simp add: useReports_initial_def useReportStats_initial_def table_initial_def
        loaded_example_locations)
qed

text \<open>
  The sentence of the specification fails for the heatmap: the view holds one location from a first
  load, the next location fetch is answered with status 500, and the view holds none.
\<close>

theorem heatmap_failure_clears_locations:
  "locations loaded_example = [place (Finite 23) (Finite 85)] \<and>
   fetchWithErrorHandling (example_env (Response 500 None))
     (location_url (example_env (Response 500 None)) None) = Inl (Error (HttpStatus 500)) \<and>
   locations (fst (loadReportLocations True loaded_example (example_env (Response 500 None))
                     loaded_example)) = [] \<and>
   locations (fst (loadReportLocations True loaded_example (example_env (Response 500 None))
                     loaded_example)) \<noteq> locations loaded_example"
  by (simp add: loaded_example_locations failed_example)
     (simp add: loadReportLocations_def set_valid_locations_def Let_def case_prod_beta)

subsection \<open>Trimming\<close>

lemma rtrim_Nil [simp]: "rtrim [] = []"
  by (simp add: rtrim_def)

lemma rtrim_snoc: "rtrim (s @ [c]) = (if js_whitespace c then rtrim s else s @ [c])"
  by (simp add: rtrim_def)

lemma rtrim_Cons: "rtrim (c # s) = (if rtrim s = [] \<and> js_whitespace c then [] else c # rtrim s)"
proof (induction s arbitrary: c rule: rev_induct)
  case Nil
  then show ?case by (simp add: rtrim_def)
next
  case (snoc x xs)
  have "rtrim (c # xs @ [x]) = rtrim ((c # xs) @ [x])" by simp
  also have "\<dots> = (if js_whitespace x then rtrim (c # xs) else (c # xs) @ [x])"
    by (rule rtrim_snoc)
  finally show ?case
    using snoc [of c] by (simp add: rtrim_snoc)
qed


lemma set_rtrim: "set (rtrim s) \<subseteq> set s"
  by (induction s) (auto simp: rtrim_Cons)

lemma rtrim_idem [simp]: "rtrim (rtrim s) = rtrim s"
  by (induction s) (auto simp: rtrim_Cons)

lemma ltrim_rtrim: "ltrim (rtrim s) = rtrim (ltrim s)"
  by (induction s) (auto simp: rtrim_Cons ltrim_def)

lemma trim_rtrim [simp]: "trim (rtrim s) = trim s"
  by (simp add: trim_def ltrim_rtrim)



lemma ws_chars [simp]:
  "js_whitespace (CHR '' '')" "js_whitespace (CHR 0x0A)" "\<not> js_whitespace (CHR ''*'')"
  by (simp_all add: js_whitespace_def)

subsection \<open>The lines of a section\<close>




lemma is_prefix_append [simp]: "is_prefix p (p @ s)"
  by (induction p) auto

lemma star_rtrim: "CHR ''*'' \<notin> set v \<Longrightarrow> CHR ''*'' \<notin> set (rtrim v)"
  using set_rtrim by blast












lemma field_line_Cons: "field_line fv = CHR ''*'' # CHR '' '' # label (fst fv) @ CHR '' '' # snd fv"
  by (simp add: field_line_def)

lemma rtrim_field_line_nonempty: "rtrim (field_line fv) \<noteq> []"
  by (simp add: field_line_Cons rtrim_Cons)







subsection \<open>The pieces of a reply\<close>


lemma split_headings_Cons:
  "split_headings (c # cs) =
     (case match_heading (c # cs) of
        Some rest \<Rightarrow> [] # split_headings rest
      | None \<Rightarrow> prepend [c] (split_headings cs))"
  by (cases "split_headings cs") (simp_all split: option.splits)

lemma prepend_prepend [simp]: "prepend a (prepend b ps) = prepend (a @ b) ps"
  by (cases ps) simp_all


lemma no_match_bullet: "match_heading (CHR ''*'' # CHR '' '' # cs) = None"
  by (simp add: match_heading_def)

lemma no_match_label: "match_heading (label f @ cs) = None"
  by (cases f) (simp_all add: match_heading_def)

lemma no_match_label_tl: "match_heading (tl (label f) @ cs) = None"
  by (cases f) (simp_all add: match_heading_def)


lemma split_cons_plain:
  "match_heading (c # rest) = None \<Longrightarrow>
   split_headings (c # rest) = prepend [c] (split_headings rest)"
  by (simp add: split_headings_Cons del: split_headings.simps)












subsection \<open>The listing\<close>
































end
